theory Spec2Isabelle
  imports Main
begin

section \<open>Endpoint registration of skype-http\<close>

text \<open>
  A shallow embedding of \<^verbatim>\<open>src/lib/helpers/register-endpoint.ts\<close>: the function
  \<^verbatim>\<open>registerEndpoint\<close> with its retry loop, and \<^verbatim>\<open>readSetRegistrationTokenHeader\<close>.

  Strings are lists of 8-bit code units (Node decodes header bytes as latin1).
  A JavaScript number is modelled by an integer or \<open>NaN\<close>; see \<open>new_Date\<close> for why the
  rounding of doubles does not show in what this file computes.
\<close>

subsection \<open>JavaScript values the code relies on\<close>

datatype number = NaN | Num int

text \<open>The product of two numbers, as \<^verbatim>\<open>1000 * expires\<close> computes it: \<open>NaN\<close> is absorbing.\<close>

fun times_number :: "number \<Rightarrow> number \<Rightarrow> number" where
  "times_number (Num a) (Num b) = Num (a * b)"
| "times_number _ _ = NaN"

text \<open>
  A \<^verbatim>\<open>Date\<close> holds a time value in milliseconds since the epoch, or is invalid.
  \<^verbatim>\<open>new Date(v)\<close> clips \<open>v\<close> (ECMAScript TimeClip): \<open>NaN\<close> and every value beyond
  8.64e15 in magnitude give the invalid date. Every integer up to 8.64e15 in magnitude is
  a double, so \<open>1000 * n\<close> is exact whenever the date is valid; and when the exact product
  is beyond the bound, so is its rounded double, rounding being monotone.
\<close>

datatype Date = InvalidDate | Date int

definition new_Date :: "number \<Rightarrow> Date" where
  "new_Date v =
     (case v of
        NaN \<Rightarrow> InvalidDate
      | Num t \<Rightarrow> if \<bar>t\<bar> > 8640000000000000 then InvalidDate else Date t)"

text \<open>White space that \<^verbatim>\<open>parseInt\<close> skips, among the code units below 256.\<close>

definition isWhiteSpace :: "char \<Rightarrow> bool" where
  "isWhiteSpace c =
     (c \<in> {CHR 0x09, CHR 0x0A, CHR 0x0B, CHR 0x0C, CHR 0x0D, CHR '' '', CHR 0xA0})"

definition isDigit :: "char \<Rightarrow> bool" where
  "isDigit c = (c \<in> set ''0123456789'')"

definition digitValue :: "char \<Rightarrow> int" where
  "digitValue c = int (of_char c) - 48"

definition digitsValue :: "string \<Rightarrow> int" where
  "digitsValue Z = foldl (\<lambda>n c. 10 * n + digitValue c) 0 Z"

text \<open>
  \<^verbatim>\<open>parseInt(s, 10)\<close>: leading white space is skipped, one sign is read, then the
  longest run of decimal digits, the numeric prefix; what follows the digits is ignored,
  and no digit at all gives \<open>NaN\<close>.
\<close>

definition stripSign :: "string \<Rightarrow> string" where
  "stripSign S = (if S \<noteq> [] \<and> (hd S = CHR ''+'' \<or> hd S = CHR ''-'') then tl S else S)"

definition numericPrefix :: "string \<Rightarrow> string" where
  "numericPrefix s = takeWhile isDigit (stripSign (dropWhile isWhiteSpace s))"

definition parseInt10 :: "string \<Rightarrow> number" where
  "parseInt10 s =
     (let S = dropWhile isWhiteSpace s;
          sign = (if S \<noteq> [] \<and> hd S = CHR ''-'' then - 1 else 1);
          Z = numericPrefix s
      in if Z = [] then NaN else Num (sign * digitsValue Z))"

text \<open>\<^verbatim>\<open>String(time)\<close> for a non-negative integer: its decimal digits.\<close>

fun String_nat :: "nat \<Rightarrow> string" where
  "String_nat n =
     (if n < 10 then [''0123456789'' ! n]
      else String_nat (n div 10) @ [''0123456789'' ! (n mod 10)])"

text \<open>
  A \<^verbatim>\<open>Map<string, string>\<close> keeps its keys in insertion order: an association list
  with \<^verbatim>\<open>get\<close> reading the first entry of a key.
\<close>

type_synonym StringMap = "(string \<times> string) list"

definition Map_get :: "StringMap \<Rightarrow> string \<Rightarrow> string option" where
  "Map_get m k = map_of m k"

subsection \<open>The data of the module\<close>

text \<open>
  The values the variable \<^verbatim>\<open>messagesHostname\<close> takes while the code runs. It is
  declared a \<^verbatim>\<open>string\<close>, and line 114 assigns \<^verbatim>\<open>location.host\<close> to it, which Node's
  \<^verbatim>\<open>url.parse\<close> sets to \<^verbatim>\<open>null\<close> for an address with no host: the variable, and
  with it the \<^verbatim>\<open>host\<close> of a token, is a string or \<^verbatim>\<open>null\<close>.
\<close>

datatype nullable_string = Null | Str string

record RegistrationToken =
  value_rt :: string
  expirationDate :: Date
  endpointId :: string
  raw :: string
  host :: nullable_string

record SkypeToken =
  value_st :: string

text \<open>
  The result of Node's \<^verbatim>\<open>url.parse\<close>; the code reads its \<^verbatim>\<open>host\<close> only. The field is
  declared \<^verbatim>\<open>host?: string\<close> and the code compares it with \<^verbatim>\<open>undefined\<close>; the
  parser itself never leaves it undefined, it sets it to \<^verbatim>\<open>null\<close> when the address has
  no host. \<open>None\<close> is \<^verbatim>\<open>undefined\<close>, \<open>Some Null\<close> is \<^verbatim>\<open>null\<close> and \<open>Some (Str s)\<close> is
  the string \<open>s\<close>.
\<close>

record Url =
  host_url :: "nullable_string option"

record 'c PostOptions =
  uri :: string
  headers_req :: "(string \<times> string) list"
  cookies :: 'c
  body_req :: string

record Response =
  statusCode :: int
  headers :: "string \<rightharpoonup> string"
  body :: string

text \<open>One entry \<^verbatim>\<open>{req, res}\<close> of the array \<^verbatim>\<open>tries\<close>.\<close>

record 'c Attempt =
  req :: "'c PostOptions"
  res :: Response

text \<open>
  The errors the module throws. \<open>EndpointRegistrationError cause\<close> is
  \<^verbatim>\<open>new Incident(cause, "EndpointRegistrationError", "Unable to register endpoint")\<close>;
  \<open>ParseError\<close> carries its message; \<open>InvalidSetRegistrationTokenHeader\<close> carries the
  data \<^verbatim>\<open>{header, parsed}\<close>. The causes carry the arguments they are created with.
\<close>

datatype 'c Cause =
    LoginRateLimitExceeded "'c Attempt list"
  | EndpointRedirectionsLimit "'c Attempt list"
  | UnexpectedHttpStatusError Response "int set" "'c PostOptions"
  | MissingHeaderError Response string "'c PostOptions"

datatype 'c Incident =
    EndpointRegistrationError "'c Cause"
  | ParseError string
  | InvalidSetRegistrationTokenHeader string StringMap

text \<open>
  What the module imports and \<^verbatim>\<open>src/\<close> does not hold: the constants of
  \<^verbatim>\<open>consts\<close>, \<^verbatim>\<open>messagesUri.endpoints\<close>, the helpers of \<^verbatim>\<open>utils\<close>
  and Node's \<^verbatim>\<open>url.parse\<close>. They are parameters of the model; \<open>'w\<close> is the state of
  the world outside the function (the clock and the server).
\<close>

record 'w Imports =
  SKYPEWEB_LOCKANDKEY_APPID :: string
  SKYPEWEB_LOCKANDKEY_SECRET :: string
  SKYPEWEB_CLIENTINFO_NAME :: string
  SKYPEWEB_CLIENTINFO_VERSION :: string
  endpoints :: "nullable_string \<Rightarrow> string"
  stringifyHeaderParams :: "(string \<times> string) list \<Rightarrow> string"
  parseHeaderParams :: "string \<Rightarrow> StringMap"
  getCurrentTime :: "'w \<Rightarrow> nat"
  hmacSha256 :: "string \<Rightarrow> string \<Rightarrow> string \<Rightarrow> string"
  parseUri :: "string \<Rightarrow> Url"

text \<open>The transport \<^verbatim>\<open>io\<close>: a request and the world give a response and the world after it.\<close>

record ('c, 'w) HttpIo =
  post :: "'c PostOptions \<Rightarrow> 'w \<Rightarrow> Response \<times> 'w"

subsection \<open>Parsing the Set-Registrationtoken header\<close>

definition readSetRegistrationTokenHeader ::
  "'w Imports \<Rightarrow> nullable_string \<Rightarrow> string \<Rightarrow> 'c Incident + RegistrationToken" where
  "readSetRegistrationTokenHeader im hostname header =
     (let parsedHeader = parseHeaderParams im header;
          expiresString = Map_get parsedHeader ''expires'';
          registrationTokenValue = Map_get parsedHeader ''registrationToken'';
          endpointId' = Map_get parsedHeader ''endpointId''
      in case (registrationTokenValue, expiresString, endpointId') of
           (Some v, Some e, Some i) \<Rightarrow>
             (let expires = parseInt10 e
              in Inr \<lparr>value_rt = v,
                      expirationDate = new_Date (times_number (Num 1000) expires),
                      endpointId = i,
                      raw = header,
                      host = hostname\<rparr>)
         | _ \<Rightarrow> Inl (InvalidSetRegistrationTokenHeader header parsedHeader))"

subsection \<open>Building the request\<close>

definition getLockAndKeyResponse :: "'w Imports \<Rightarrow> nat \<Rightarrow> string" where
  "getLockAndKeyResponse im time =
     hmacSha256 im (String_nat time) (SKYPEWEB_LOCKANDKEY_APPID im) (SKYPEWEB_LOCKANDKEY_SECRET im)"

definition CLIENT_INFO_HEADER :: "'w Imports \<Rightarrow> string" where
  "CLIENT_INFO_HEADER im =
     stringifyHeaderParams im
       [(''os'', ''Windows''),
        (''osVer'', ''10''),
        (''proc'', ''Win64''),
        (''lcid'', ''en-us''),
        (''deviceType'', ''1''),
        (''country'', ''n/a''),
        (''clientName'', SKYPEWEB_CLIENTINFO_NAME im),
        (''clientVer'', SKYPEWEB_CLIENTINFO_VERSION im)]"

definition getLockAndKeyHeader :: "'w Imports \<Rightarrow> nat \<Rightarrow> string" where
  "getLockAndKeyHeader im time =
     (let lockAndKeyResponse = getLockAndKeyResponse im time
      in stringifyHeaderParams im
           [(''appId'', SKYPEWEB_LOCKANDKEY_APPID im),
            (''time'', String_nat time),
            (''lockAndKeyResponse'', lockAndKeyResponse)])"

text \<open>\<^verbatim>\<open>JSON.stringify({endpointFeatures: "Agent"})\<close>, the double quote being \<open>CHR 0x22\<close>.\<close>

definition endpointFeatures_json :: string where
  "endpointFeatures_json =
     ''{'' @ [CHR 0x22] @ ''endpointFeatures'' @ [CHR 0x22] @ '':'' @
     [CHR 0x22] @ ''Agent'' @ [CHR 0x22] @ ''}''"

text \<open>The object \<^verbatim>\<open>req\<close> of one pass of the loop (lines 70 to 83).\<close>

definition makeRequest ::
  "'w Imports \<Rightarrow> 'c \<Rightarrow> SkypeToken \<Rightarrow> nullable_string \<Rightarrow> 'w \<Rightarrow> 'c PostOptions" where
  "makeRequest im cookies' skypeToken messagesHostname w =
     \<lparr>uri = endpoints im messagesHostname,
      headers_req =
        [(''LockAndKey'', getLockAndKeyHeader im (getCurrentTime im w)),
         (''ClientInfo'', CLIENT_INFO_HEADER im),
         (''Authentication'', stringifyHeaderParams im [(''skypetoken'', value_st skypeToken)]),
         (''BehaviorOverride'', ''redirectAs404'')],
      cookies = cookies',
      body_req = endpointFeatures_json\<rparr>"

subsection \<open>One pass of the loop\<close>

text \<open>
  How a pass of the loop ends once the response is there (lines 88 to 126): it throws, it
  goes on to the next pass with a new hostname (\<^verbatim>\<open>continue\<close>), or it returns the
  token. \<open>tries\<close> is the array after the \<^verbatim>\<open>push\<close> of line 86.
\<close>

datatype 'c Step = Throw "'c Incident" | Continue nullable_string | Return RegistrationToken

definition handleResponse ::
  "'w Imports \<Rightarrow> 'c PostOptions \<Rightarrow> Response \<Rightarrow> 'c Attempt list \<Rightarrow> nullable_string \<Rightarrow>
   'c Step" where
  "handleResponse im rq rs tries messagesHostname =
     (if statusCode rs = 429 then
        Throw (EndpointRegistrationError (LoginRateLimitExceeded tries))
      else
        (let expectedStatusCode = {201, 301} in
         if statusCode rs \<notin> expectedStatusCode then
           Throw (EndpointRegistrationError (UnexpectedHttpStatusError rs expectedStatusCode rq))
         else
           (case headers rs ''location'' of
              None \<Rightarrow> Throw (EndpointRegistrationError (MissingHeaderError rs ''Location'' rq))
            | Some locationHeader \<Rightarrow>
                (let location = parseUri im locationHeader in
                 (case host_url location of
                    None \<Rightarrow> Throw (ParseError ''Expected location to define host'')
                  | Some h \<Rightarrow>
                      if h \<noteq> messagesHostname then Continue h
                      else
                        (case headers rs ''set-registrationtoken'' of
                           None \<Rightarrow>
                             Throw (EndpointRegistrationError
                                      (MissingHeaderError rs ''Set-Registrationtoken'' rq))
                         | Some registrationTokenHeader \<Rightarrow>
                             (case readSetRegistrationTokenHeader im messagesHostname
                                     registrationTokenHeader of
                                Inl e \<Rightarrow> Throw e
                              | Inr t \<Rightarrow> Return t)))))))"

subsection \<open>The loop\<close>

text \<open>
  What a call leaves behind: how the promise settles (\<open>Inl\<close> the error thrown, \<open>Inr\<close> the
  token returned), the array \<^verbatim>\<open>tries\<close> (one entry for each request sent), the
  variable \<^verbatim>\<open>messagesHostname\<close>, and the world.
\<close>

record ('c, 'w) Run =
  outcome :: "'c Incident + RegistrationToken"
  attempts :: "'c Attempt list"
  hostname :: nullable_string
  world :: 'w

text \<open>
  The \<^verbatim>\<open>for\<close> loop of lines 69 to 127 and the \<^verbatim>\<open>throw\<close> after it, as a function of
  the variables the loop changes: \<^verbatim>\<open>tryCount\<close>, \<^verbatim>\<open>messagesHostname\<close>,
  \<^verbatim>\<open>tries\<close> and the world.
\<close>

function registerEndpoint_loop ::
  "'w Imports \<Rightarrow> ('c, 'w) HttpIo \<Rightarrow> 'c \<Rightarrow> SkypeToken \<Rightarrow> int \<Rightarrow> int \<Rightarrow> nullable_string \<Rightarrow>
   'c Attempt list \<Rightarrow> 'w \<Rightarrow> ('c, 'w) Run" where
  "registerEndpoint_loop im io cookies' skypeToken retries tryCount messagesHostname tries w =
     (if tryCount \<le> retries then
        (let rq = makeRequest im cookies' skypeToken messagesHostname w;
             (rs, w') = post io rq w;
             tries' = tries @ [\<lparr>req = rq, res = rs\<rparr>]
         in case handleResponse im rq rs tries' messagesHostname of
              Throw e \<Rightarrow>
                \<lparr>outcome = Inl e, attempts = tries', hostname = messagesHostname, world = w'\<rparr>
            | Continue h \<Rightarrow>
                registerEndpoint_loop im io cookies' skypeToken retries (tryCount + 1) h tries' w'
            | Return t \<Rightarrow>
                \<lparr>outcome = Inr t, attempts = tries', hostname = messagesHostname, world = w'\<rparr>)
      else
        \<lparr>outcome = Inl (EndpointRegistrationError (EndpointRedirectionsLimit tries)),
         attempts = tries, hostname = messagesHostname, world = w\<rparr>)"
  by pat_completeness auto
termination
  by (relation "measure (\<lambda>(im, io, c, t, retries, tryCount, h, tries, w). nat (retries + 1 - tryCount))")
     auto

declare registerEndpoint_loop.simps [simp del]

text \<open>
  The call itself: the loop starts with \<^verbatim>\<open>tryCount = 0\<close> and an empty array. The
  parameter \<^verbatim>\<open>retries\<close> (2 when the caller leaves it out) is any integer: with a
  negative one the body of the loop never runs. The parameter \<^verbatim>\<open>messagesHostname\<close> has
  the type of the variable it is: a caller gives \<open>Str s\<close>.
\<close>

definition registerEndpoint ::
  "'w Imports \<Rightarrow> ('c, 'w) HttpIo \<Rightarrow> 'c \<Rightarrow> SkypeToken \<Rightarrow> nullable_string \<Rightarrow> int \<Rightarrow> 'w \<Rightarrow>
   ('c, 'w) Run" where
  "registerEndpoint im io cookies' skypeToken messagesHostname retries w =
     registerEndpoint_loop im io cookies' skypeToken retries 0 messagesHostname [] w"

subsection \<open>The header-parameter helpers, and an environment to run the code in\<close>

text \<open>\<^verbatim>\<open>String.prototype.trim\<close>: white space is removed at both ends.\<close>

definition trim :: "string \<Rightarrow> string" where
  "trim s = rev (dropWhile isWhiteSpace (rev (dropWhile isWhiteSpace s)))"

text \<open>\<^verbatim>\<open>s.split(c)\<close>: the pieces between the occurrences of \<open>c\<close>; one empty piece when \<open>s\<close> is empty.\<close>

fun split_on :: "char \<Rightarrow> string \<Rightarrow> string list" where
  "split_on c [] = [[]]"
| "split_on c (x # xs) =
     (if x = c then [] # split_on c xs
      else (case split_on c xs of
              [] \<Rightarrow> [[x]]
            | y # ys \<Rightarrow> (x # y) # ys))"

text \<open>\<^verbatim>\<open>Map.prototype.set\<close>: a key already there keeps its place and takes the new value.\<close>

fun Map_set :: "StringMap \<Rightarrow> string \<Rightarrow> string \<Rightarrow> StringMap" where
  "Map_set [] k v = [(k, v)]"
| "Map_set (p # ps) k v = (if fst p = k then (k, v) # ps else p # Map_set ps k v)"

text \<open>
  Modelled from the spec: \<^verbatim>\<open>utils.stringifyHeaderParams\<close>, whose file is not under
  \<^verbatim>\<open>src/\<close>. The entries are joined as \<^verbatim>\<open>key=value\<close>, separated by \<^verbatim>\<open>"; "\<close>,
  in the order given.
\<close>

fun stringifyHeaderParams_spec :: "(string \<times> string) list \<Rightarrow> string" where
  "stringifyHeaderParams_spec [] = []"
| "stringifyHeaderParams_spec [(k, v)] = k @ ''='' @ v"
| "stringifyHeaderParams_spec ((k, v) # ps) = k @ ''='' @ v @ ''; '' @ stringifyHeaderParams_spec ps"

text \<open>
  Modelled from the spec: \<^verbatim>\<open>utils.parseHeaderParams\<close>, whose file is not under
  \<^verbatim>\<open>src/\<close>. The header is split on \<^verbatim>\<open>";"\<close>, each segment is trimmed, a segment
  with no \<^verbatim>\<open>"="\<close> is dropped, the others are split on their first \<^verbatim>\<open>"="\<close> into
  key and value, and a later occurrence of a key overwrites an earlier one. Key and value
  are trimmed too, the spec asking for tolerance of white space around \<^verbatim>\<open>"="\<close>.
\<close>

definition parseHeaderParam :: "StringMap \<Rightarrow> string \<Rightarrow> StringMap" where
  "parseHeaderParam result paramString =
     (let segment = trim paramString
      in if CHR ''='' \<notin> set segment then result
         else Map_set result
                (trim (takeWhile (\<lambda>c. c \<noteq> CHR ''='') segment))
                (trim (tl (dropWhile (\<lambda>c. c \<noteq> CHR ''='') segment))))"

definition parseHeaderParams_spec :: "string \<Rightarrow> StringMap" where
  "parseHeaderParams_spec params = foldl parseHeaderParam [] (split_on (CHR '';'') params)"

text \<open>
  An environment for running the code on examples: the two helpers above, a stand-in for
  \<^verbatim>\<open>url.parse\<close>, a stand-in for \<^verbatim>\<open>messagesUri.endpoints\<close>, and a world that is the
  list of the responses the server will give, in order (status 500 once the list is used
  up).

  The stand-in for \<^verbatim>\<open>url.parse\<close> reads an address that starts with \<^verbatim>\<open>http://\<close> or
  \<^verbatim>\<open>https://\<close>, in any case: its host is what stands before the first \<^verbatim>\<open>/\<close>,
  \<^verbatim>\<open>?\<close> or \<^verbatim>\<open>#\<close>, in lower case. For any other address the host is \<^verbatim>\<open>null\<close>, as
  Node's parser has it for a path such as \<^verbatim>\<open>/v1/users/ME/endpoints\<close>. User names, and
  the other schemes Node knows, are left out.
\<close>

definition toLowerCase :: "string \<Rightarrow> string" where
  "toLowerCase s =
     map (\<lambda>c. case map_of (zip ''ABCDEFGHIJKLMNOPQRSTUVWXYZ'' ''abcdefghijklmnopqrstuvwxyz'') c of
                 None \<Rightarrow> c
               | Some l \<Rightarrow> l) s"

definition hostOf :: "string \<Rightarrow> string" where
  "hostOf rest = toLowerCase (takeWhile (\<lambda>c. c \<notin> {CHR ''/'', CHR ''?'', CHR ''#''}) rest)"

definition parseUri_example :: "string \<Rightarrow> Url" where
  "parseUri_example s =
     (if toLowerCase (take 8 s) = ''https://'' then \<lparr>host_url = Some (Str (hostOf (drop 8 s)))\<rparr>
      else if toLowerCase (take 7 s) = ''http://'' then \<lparr>host_url = Some (Str (hostOf (drop 7 s)))\<rparr>
      else \<lparr>host_url = Some Null\<rparr>)"

text \<open>
  The stand-in for \<^verbatim>\<open>messagesUri.endpoints\<close> builds an address from the hostname by
  concatenation, in which \<^verbatim>\<open>null\<close> reads \<^verbatim>\<open>"null"\<close>.
\<close>

definition endpoints_example :: "nullable_string \<Rightarrow> string" where
  "endpoints_example h =
     ''https://'' @ (case h of Null \<Rightarrow> ''null'' | Str s \<Rightarrow> s) @ ''/v1/users/ME/endpoints''"

definition imports_example :: "Response list Imports" where
  "imports_example =
     \<lparr>SKYPEWEB_LOCKANDKEY_APPID = ''appid'',
      SKYPEWEB_LOCKANDKEY_SECRET = ''secret'',
      SKYPEWEB_CLIENTINFO_NAME = ''client'',
      SKYPEWEB_CLIENTINFO_VERSION = ''1.0'',
      endpoints = endpoints_example,
      stringifyHeaderParams = stringifyHeaderParams_spec,
      parseHeaderParams = parseHeaderParams_spec,
      getCurrentTime = (\<lambda>w. 1500000000),
      hmacSha256 = (\<lambda>input appId secret. ''00''),
      parseUri = parseUri_example\<rparr>"

definition io_example :: "(unit, Response list) HttpIo" where
  "io_example =
     \<lparr>post = (\<lambda>rq w. case w of
                         [] \<Rightarrow> (\<lparr>statusCode = 500, headers = Map.empty, body = []\<rparr>, [])
                       | r # rs \<Rightarrow> (r, rs))\<rparr>"

definition skypeToken_example :: SkypeToken where
  "skypeToken_example = \<lparr>value_st = ''secret-token''\<rparr>"

text \<open>Responses of the example server.\<close>

definition r429 :: Response where
  "r429 = \<lparr>statusCode = 429, headers = Map.empty, body = ''rate limit''\<rparr>"

definition r500 :: Response where
  "r500 = \<lparr>statusCode = 500, headers = Map.empty, body = []\<rparr>"

definition r301_to_b :: Response where
  "r301_to_b =
     \<lparr>statusCode = 301,
      headers = [''location'' \<mapsto> ''https://b.example.com/v1/users/ME/endpoints''],
      body = []\<rparr>"


definition r201_at_b :: Response where
  "r201_at_b =
     \<lparr>statusCode = 201,
      headers = [''location'' \<mapsto> ''https://b.example.com/v1/users/ME/endpoints/e1'',
                 ''set-registrationtoken'' \<mapsto>
                   ''registrationToken=abc; expires=1000; endpointId={e1}''],
      body = []\<rparr>"

definition r201_no_location :: Response where
  "r201_no_location = \<lparr>statusCode = 201, headers = Map.empty, body = []\<rparr>"

definition r201_no_token_at_a :: Response where
  "r201_no_token_at_a =
     \<lparr>statusCode = 201,
      headers = [''location'' \<mapsto> ''https://a.example.com/v1/users/ME/endpoints/e1''],
      body = []\<rparr>"

definition r301_no_host :: Response where
  "r301_no_host =
     \<lparr>statusCode = 301,
      headers = [''location'' \<mapsto> ''/v1/users/ME/endpoints''],
      body = []\<rparr>"


subsection \<open>Passes that end by a redirection\<close>

text \<open>
  \<open>all_redirected n\<close> holds when each of the next \<open>n\<close> passes of the loop, started with
  the hostname \<open>messagesHostname\<close> in the world \<open>w\<close>, ends at the \<^verbatim>\<open>continue\<close> of line 115.
\<close>

fun all_redirected ::
  "'w Imports \<Rightarrow> ('c, 'w) HttpIo \<Rightarrow> 'c \<Rightarrow> SkypeToken \<Rightarrow> nat \<Rightarrow> nullable_string \<Rightarrow>
   'c Attempt list \<Rightarrow> 'w \<Rightarrow> bool" where
  "all_redirected im io cookies' skypeToken 0 messagesHostname tries w = True"
| "all_redirected im io cookies' skypeToken (Suc n) messagesHostname tries w =
     (let rq = makeRequest im cookies' skypeToken messagesHostname w;
          (rs, w') = post io rq w;
          tries' = tries @ [\<lparr>req = rq, res = rs\<rparr>]
      in case handleResponse im rq rs tries' messagesHostname of
           Throw e \<Rightarrow> False
         | Continue h \<Rightarrow> all_redirected im io cookies' skypeToken n h tries' w'
         | Return t \<Rightarrow> False)"

section \<open>Properties\<close>

subsection \<open>One pass of the loop, case by case\<close>

lemma registerEndpoint_loop_pass:
  assumes "tryCount \<le> retries"
    and "post io (makeRequest im c tok h w) w = (rs, w')"
  shows "registerEndpoint_loop im io c tok retries tryCount h tries w =
     (case handleResponse im (makeRequest im c tok h w) rs
             (tries @ [\<lparr>req = makeRequest im c tok h w, res = rs\<rparr>]) h of
        Throw e \<Rightarrow>
          \<lparr>outcome = Inl e, attempts = tries @ [\<lparr>req = makeRequest im c tok h w, res = rs\<rparr>],
           hostname = h, world = w'\<rparr>
      | Continue h' \<Rightarrow>
          registerEndpoint_loop im io c tok retries (tryCount + 1) h'
            (tries @ [\<lparr>req = makeRequest im c tok h w, res = rs\<rparr>]) w'
      | Return t \<Rightarrow>
          \<lparr>outcome = Inr t, attempts = tries @ [\<lparr>req = makeRequest im c tok h w, res = rs\<rparr>],
           hostname = h, world = w'\<rparr>)"
  using assms by (subst registerEndpoint_loop.simps) (simp add: Let_def)

lemma registerEndpoint_loop_exit:
  assumes "\<not> tryCount \<le> retries"
  shows "registerEndpoint_loop im io c tok retries tryCount h tries w =
     \<lparr>outcome = Inl (EndpointRegistrationError (EndpointRedirectionsLimit tries)),
      attempts = tries, hostname = h, world = w\<rparr>"
  using assms by (subst registerEndpoint_loop.simps) (simp add: Let_def)

lemma handleResponse_429:
  "statusCode rs = 429 \<Longrightarrow>
   handleResponse im rq rs tries h = Throw (EndpointRegistrationError (LoginRateLimitExceeded tries))"
  by (simp add: handleResponse_def)

lemma handleResponse_bad_status:
  "statusCode rs \<noteq> 429 \<Longrightarrow> statusCode rs \<notin> {201, 301} \<Longrightarrow>
   handleResponse im rq rs tries h =
     Throw (EndpointRegistrationError (UnexpectedHttpStatusError rs {201, 301} rq))"
  by (simp add: handleResponse_def)

lemma handleResponse_no_location:
  "statusCode rs \<in> {201, 301} \<Longrightarrow> headers rs ''location'' = None \<Longrightarrow>
   handleResponse im rq rs tries h =
     Throw (EndpointRegistrationError (MissingHeaderError rs ''Location'' rq))"
  by (auto simp add: handleResponse_def)

lemma handleResponse_no_host:
  "statusCode rs \<in> {201, 301} \<Longrightarrow> headers rs ''location'' = Some loc \<Longrightarrow>
   host_url (parseUri im loc) = None \<Longrightarrow>
   handleResponse im rq rs tries h = Throw (ParseError ''Expected location to define host'')"
  by (auto simp add: handleResponse_def)

lemma handleResponse_redirect:
  "statusCode rs \<in> {201, 301} \<Longrightarrow> headers rs ''location'' = Some loc \<Longrightarrow>
   host_url (parseUri im loc) = Some h' \<Longrightarrow> h' \<noteq> h \<Longrightarrow>
   handleResponse im rq rs tries h = Continue h'"
  by (auto simp add: handleResponse_def)

lemma handleResponse_no_token_header:
  "statusCode rs \<in> {201, 301} \<Longrightarrow> headers rs ''location'' = Some loc \<Longrightarrow>
   host_url (parseUri im loc) = Some h \<Longrightarrow> headers rs ''set-registrationtoken'' = None \<Longrightarrow>
   handleResponse im rq rs tries h =
     Throw (EndpointRegistrationError (MissingHeaderError rs ''Set-Registrationtoken'' rq))"
  by (auto simp add: handleResponse_def)

lemma handleResponse_conclusive:
  "statusCode rs \<in> {201, 301} \<Longrightarrow> headers rs ''location'' = Some loc \<Longrightarrow>
   host_url (parseUri im loc) = Some h \<Longrightarrow> headers rs ''set-registrationtoken'' = Some hdr \<Longrightarrow>
   handleResponse im rq rs tries h =
     (case readSetRegistrationTokenHeader im h hdr of Inl e \<Rightarrow> Throw e | Inr t \<Rightarrow> Return t)"
  by (auto simp add: handleResponse_def)

lemma readSetRegistrationTokenHeader_error:
  "readSetRegistrationTokenHeader im h hdr = Inl e \<Longrightarrow>
   e = InvalidSetRegistrationTokenHeader hdr (parseHeaderParams im hdr)"
  by (auto simp add: readSetRegistrationTokenHeader_def Let_def split: option.splits)

lemma handleResponse_not_limit:
  "handleResponse im rq rs tries h \<noteq> Throw (EndpointRegistrationError (EndpointRedirectionsLimit t))"
  by (auto simp add: handleResponse_def Let_def split: option.splits sum.splits
      dest: readSetRegistrationTokenHeader_error)

subsection \<open>Invariants of the loop\<close>

lemma registerEndpoint_loop_attempts:
  "length tries \<le> length (attempts (registerEndpoint_loop im io c tok retries tryCount h tries w)) \<and>
   (tryCount \<le> retries \<longrightarrow>
      length tries < length (attempts (registerEndpoint_loop im io c tok retries tryCount h tries w))) \<and>
   int (length (attempts (registerEndpoint_loop im io c tok retries tryCount h tries w)))
     \<le> int (length tries) + max 0 (retries + 1 - tryCount)"
proof (induction im io c tok retries tryCount h tries w rule: registerEndpoint_loop.induct)
  case (1 im io c tok retries tryCount h tries w)
  show ?case
  proof (cases "tryCount \<le> retries")
    case False
    then show ?thesis by (simp add: registerEndpoint_loop_exit)
  next
    case True
    obtain rs w' where p: "post io (makeRequest im c tok h w) w = (rs, w')"
      by (cases "post io (makeRequest im c tok h w) w")
    let ?rq = "makeRequest im c tok h w"
    let ?tries = "tries @ [\<lparr>req = ?rq, res = rs\<rparr>]"
    show ?thesis
    proof (cases "handleResponse im ?rq rs ?tries h")
      case (Throw e)
      with True p show ?thesis by (simp add: registerEndpoint_loop_pass)
    next
      case (Return t)
      with True p show ?thesis by (simp add: registerEndpoint_loop_pass)
    next
      case (Continue h')
      have ih: "length ?tries \<le> length (attempts (registerEndpoint_loop im io c tok retries (tryCount + 1) h' ?tries w')) \<and>
        int (length (attempts (registerEndpoint_loop im io c tok retries (tryCount + 1) h' ?tries w')))
          \<le> int (length ?tries) + max 0 (retries + 1 - (tryCount + 1))"
        using "1.IH" [OF True refl refl p [symmetric] refl Continue] by simp
      have eq: "registerEndpoint_loop im io c tok retries tryCount h tries w =
            registerEndpoint_loop im io c tok retries (tryCount + 1) h' ?tries w'"
        using True p Continue by (simp add: registerEndpoint_loop_pass)
      show ?thesis using ih True unfolding eq by auto
    qed
  qed
qed

lemma registerEndpoint_loop_limit:
  "outcome (registerEndpoint_loop im io c tok retries tryCount h tries w) =
     Inl (EndpointRegistrationError (EndpointRedirectionsLimit t)) \<Longrightarrow>
   t = attempts (registerEndpoint_loop im io c tok retries tryCount h tries w) \<and>
   int (length t) = int (length tries) + max 0 (retries + 1 - tryCount)"
proof (induction im io c tok retries tryCount h tries w rule: registerEndpoint_loop.induct)
  case (1 im io c tok retries tryCount h tries w)
  show ?case
  proof (cases "tryCount \<le> retries")
    case False
    with "1.prems" show ?thesis by (simp add: registerEndpoint_loop_exit)
  next
    case True
    obtain rs w' where p: "post io (makeRequest im c tok h w) w = (rs, w')"
      by (cases "post io (makeRequest im c tok h w) w")
    let ?rq = "makeRequest im c tok h w"
    let ?tries = "tries @ [\<lparr>req = ?rq, res = rs\<rparr>]"
    show ?thesis
    proof (cases "handleResponse im ?rq rs ?tries h")
      case (Throw e)
      with True p "1.prems" have "e = EndpointRegistrationError (EndpointRedirectionsLimit t)"
        by (simp add: registerEndpoint_loop_pass)
      with Throw show ?thesis by (simp add: handleResponse_not_limit)
    next
      case (Return t')
      with True p "1.prems" show ?thesis by (simp add: registerEndpoint_loop_pass)
    next
      case (Continue h')
      have eq: "registerEndpoint_loop im io c tok retries tryCount h tries w =
            registerEndpoint_loop im io c tok retries (tryCount + 1) h' ?tries w'"
        using True p Continue by (simp add: registerEndpoint_loop_pass)
      have ih: "t = attempts (registerEndpoint_loop im io c tok retries (tryCount + 1) h' ?tries w') \<and>
        int (length t) = int (length ?tries) + max 0 (retries + 1 - (tryCount + 1))"
        by (rule "1.IH" [OF True refl refl p [symmetric] refl Continue "1.prems" [unfolded eq]])
      show ?thesis
      proof (intro conjI)
        show "t = attempts (registerEndpoint_loop im io c tok retries tryCount h tries w)"
          using ih unfolding eq by (rule conjunct1)
        show "int (length t) = int (length tries) + max 0 (retries + 1 - tryCount)"
          using conjunct2 [OF ih] True by simp
      qed
    qed
  qed
qed

lemma registerEndpoint_loop_all_redirected:
  "all_redirected im io c tok n h tries w \<Longrightarrow> int n = max 0 (retries + 1 - tryCount) \<Longrightarrow>
   outcome (registerEndpoint_loop im io c tok retries tryCount h tries w) =
     Inl (EndpointRegistrationError (EndpointRedirectionsLimit
       (attempts (registerEndpoint_loop im io c tok retries tryCount h tries w))))"
proof (induction n arbitrary: tryCount h tries w)
  case 0
  then have "\<not> tryCount \<le> retries" by simp
  then show ?case by (simp add: registerEndpoint_loop_exit)
next
  case (Suc n)
  from Suc.prems(2) have le: "tryCount \<le> retries" by simp
  obtain rs w' where p: "post io (makeRequest im c tok h w) w = (rs, w')"
    by (cases "post io (makeRequest im c tok h w) w")
  let ?rq = "makeRequest im c tok h w"
  let ?tries = "tries @ [\<lparr>req = ?rq, res = rs\<rparr>]"
  from Suc.prems(1) p obtain h' where
    c: "handleResponse im ?rq rs ?tries h = Continue h'" and
    r: "all_redirected im io c tok n h' ?tries w'"
    by (auto simp add: Let_def split: Step.splits)
  have eq: "registerEndpoint_loop im io c tok retries tryCount h tries w =
        registerEndpoint_loop im io c tok retries (tryCount + 1) h' ?tries w'"
    using le p c by (simp add: registerEndpoint_loop_pass)
  from Suc.prems(2) have "int n = max 0 (retries + 1 - (tryCount + 1))" by simp
  from Suc.IH [OF r this] show ?case unfolding eq .
qed


subsection \<open>The helpers on examples, and the lenient integer parse\<close>

lemma parseHeaderParams_spec_example:
  "parseHeaderParams_spec ''registrationToken=abc; expires=1000; endpointId={e1}'' =
     [(''registrationToken'', ''abc''), (''expires'', ''1000''), (''endpointId'', ''{e1}'')]"
  by code_simp


lemma parseHeaderParams_spec_no_expires:
  "parseHeaderParams_spec ''registrationToken=abc; endpointId={e1}'' =
     [(''registrationToken'', ''abc''), (''endpointId'', ''{e1}'')]"
  by code_simp

lemma parseInt10_1000: "parseInt10 ''1000'' = Num 1000"
  by (simp add: parseInt10_def numericPrefix_def stripSign_def isWhiteSpace_def isDigit_def
      digitsValue_def digitValue_def)

lemma parseInt10_1000x: "parseInt10 ''1000x'' = Num 1000"
  by (simp add: parseInt10_def numericPrefix_def stripSign_def isWhiteSpace_def isDigit_def
      digitsValue_def digitValue_def)


lemma readSetRegistrationTokenHeader_token:
  assumes "Map_get (parseHeaderParams im header) ''registrationToken'' = Some v"
    and "Map_get (parseHeaderParams im header) ''expires'' = Some e"
    and "Map_get (parseHeaderParams im header) ''endpointId'' = Some i"
  shows "readSetRegistrationTokenHeader im h header =
     Inr \<lparr>value_rt = v,
          expirationDate = new_Date (times_number (Num 1000) (parseInt10 e)),
          endpointId = i, raw = header, host = h\<rparr>"
  using assms by (simp add: readSetRegistrationTokenHeader_def Let_def)

lemma isDigit_plain: "isDigit c \<Longrightarrow> \<not> isWhiteSpace c \<and> c \<noteq> CHR ''+'' \<and> c \<noteq> CHR ''-''"
  by (auto simp add: isDigit_def isWhiteSpace_def)

lemma numericPrefix_digits:
  assumes "d \<noteq> []" and "\<forall>c\<in>set d. isDigit c" and "rest = [] \<or> \<not> isDigit (hd rest)"
  shows "numericPrefix (d @ rest) = d"
proof -
  from assms(1) obtain x xs where d: "d = x # xs" by (cases d) auto
  with assms(2) have x: "isDigit x" by simp
  have "dropWhile isWhiteSpace (d @ rest) = d @ rest"
    using x isDigit_plain [of x] by (simp add: d)
  moreover have "stripSign (d @ rest) = d @ rest"
    using x isDigit_plain [of x] by (simp add: d stripSign_def)
  moreover have "takeWhile isDigit rest = []"
    using assms(3) by (cases rest) auto
  then have "takeWhile isDigit (d @ rest) = d"
    using assms(2) by (simp add: takeWhile_append2)
  ultimately show ?thesis by (simp add: numericPrefix_def)
qed

lemma parseInt10_digits:
  assumes "d \<noteq> []" and "\<forall>c\<in>set d. isDigit c" and "rest = [] \<or> \<not> isDigit (hd rest)"
  shows "parseInt10 (d @ rest) = Num (digitsValue d)"
proof -
  from assms(1) obtain x xs where d: "d = x # xs" by (cases d) auto
  with assms(2) have x: "isDigit x" by simp
  have "dropWhile isWhiteSpace (d @ rest) = d @ rest"
    using x isDigit_plain [of x] by (simp add: d)
  moreover have "hd (d @ rest) \<noteq> CHR ''-''"
    using x isDigit_plain [of x] by (simp add: d)
  ultimately show ?thesis
    using numericPrefix_digits [OF assms] assms(1) by (simp add: parseInt10_def)
qed

lemma parseInt10_no_prefix: "numericPrefix e = [] \<Longrightarrow> parseInt10 e = NaN"
  by (simp add: parseInt10_def)

lemma parseHeaderParams_spec_1000x:
  "parseHeaderParams_spec ''registrationToken=abc; expires=1000x; endpointId={e1}'' =
     [(''registrationToken'', ''abc''), (''expires'', ''1000x''), (''endpointId'', ''{e1}'')]"
  by code_simp

lemma parseHeaderParams_spec_soon:
  "parseHeaderParams_spec ''registrationToken=abc; expires=soon; endpointId={e1}'' =
     [(''registrationToken'', ''abc''), (''expires'', ''soon''), (''endpointId'', ''{e1}'')]"
  by code_simp

lemma numericPrefix_soon: "numericPrefix ''soon'' = []"
  by (simp add: numericPrefix_def stripSign_def isWhiteSpace_def isDigit_def)

subsection \<open>The example environment\<close>

lemma post_io_example:
  "post io_example rq (r # rs) = (r, rs)"
  by (simp add: io_example_def)

lemma parseUri_imports_example: "parseUri imports_example = parseUri_example"
  by (simp add: imports_example_def)

lemma parseHeaderParams_imports_example: "parseHeaderParams imports_example = parseHeaderParams_spec"
  by (simp add: imports_example_def)

lemma parseUri_example_a:
  "host_url (parseUri_example ''https://a.example.com/v1/users/ME/endpoints/e1'') =
     Some (Str ''a.example.com'')"
  by code_simp

lemma parseUri_example_b:
  "host_url (parseUri_example ''https://b.example.com/v1/users/ME/endpoints'') =
     Some (Str ''b.example.com'')"
  by code_simp

lemma parseUri_example_b1:
  "host_url (parseUri_example ''https://b.example.com/v1/users/ME/endpoints/e1'') =
     Some (Str ''b.example.com'')"
  by code_simp

lemma parseUri_example_relative:
  "host_url (parseUri_example ''/v1/users/ME/endpoints'') = Some Null"
  by code_simp

lemma parseHeaderParams_spec_far:
  "parseHeaderParams_spec ''registrationToken=abc; expires=8640000000001; endpointId={e1}'' =
     [(''registrationToken'', ''abc''), (''expires'', ''8640000000001''), (''endpointId'', ''{e1}'')]"
  by code_simp

lemma parseInt10_far: "parseInt10 ''8640000000001'' = Num 8640000000001"
  by (simp add: parseInt10_def numericPrefix_def stripSign_def isWhiteSpace_def isDigit_def
      digitsValue_def digitValue_def)

lemma readSetRegistrationTokenHeader_Inr:
  assumes "(readSetRegistrationTokenHeader im h hdr :: 'c Incident + RegistrationToken) = Inr tk"
  shows "\<exists>v e i.
     Map_get (parseHeaderParams im hdr) ''registrationToken'' = Some v \<and>
     Map_get (parseHeaderParams im hdr) ''expires'' = Some e \<and>
     Map_get (parseHeaderParams im hdr) ''endpointId'' = Some i \<and>
     tk = \<lparr>value_rt = v,
           expirationDate = new_Date (times_number (Num 1000) (parseInt10 e)),
           endpointId = i, raw = hdr, host = h\<rparr>"
  using assms
  by (auto simp add: readSetRegistrationTokenHeader_def Let_def split: option.splits)

section \<open>The claims\<close>

text \<open>
  C1. A \<^verbatim>\<open>Date\<close> does not hold every instant: for the header
  \<^verbatim>\<open>registrationToken=abc; expires=8640000000001; endpointId={e1}\<close> the parsed number of
  seconds is 8640000000001, and the expiration date of the token is the invalid date, not
  the instant 8640000000001000 ms after the epoch.
\<close>

theorem readSetRegistrationTokenHeader_date_range_counterexample:
  "parseInt10 ''8640000000001'' = Num 8640000000001 \<and>
   (readSetRegistrationTokenHeader imports_example (Str ''a.example.com'')
      ''registrationToken=abc; expires=8640000000001; endpointId={e1}''
      :: unit Incident + RegistrationToken) =
     Inr \<lparr>value_rt = ''abc'', expirationDate = InvalidDate, endpointId = ''{e1}'',
          raw = ''registrationToken=abc; expires=8640000000001; endpointId={e1}'',
          host = Str ''a.example.com''\<rparr>"
  by (simp add: readSetRegistrationTokenHeader_def Let_def parseHeaderParams_imports_example
      parseHeaderParams_spec_far Map_get_def parseInt10_far new_Date_def)

text \<open>
  C1, as amended. \<^verbatim>\<open>readSetRegistrationTokenHeader\<close> fails exactly when one of the keys
  \<^verbatim>\<open>registrationToken\<close>, \<^verbatim>\<open>expires\<close>, \<^verbatim>\<open>endpointId\<close> is absent from the parsed
  header, whatever \<^verbatim>\<open>parseHeaderParams\<close> is, and the error is then
  \<open>InvalidSetRegistrationTokenHeader\<close>. Otherwise it returns the token whose value and
  endpoint id are the values of the keys, whose expiration date is
  \<^verbatim>\<open>new Date(1000 * parseInt(expires, 10))\<close>, whose raw field is the header and whose host
  is the hostname given. The date is the instant \<open>1000 * n\<close> milliseconds after the epoch
  when \<open>n\<close> is the parsed number of seconds and \<open>1000 * n\<close> is at most 8.64e15 in
  magnitude; it is the invalid date when the parse gives \<open>NaN\<close> or \<open>1000 * n\<close> is beyond
  that bound. With the helper of the spec, the header
  \<^verbatim>\<open>registrationToken=abc; expires=1000; endpointId={e1}\<close> gives the value \<^verbatim>\<open>abc\<close>,
  the endpoint id \<^verbatim>\<open>{e1}\<close> and the instant 1,000,000 ms after the epoch.
\<close>

theorem readSetRegistrationTokenHeader_correct:
  "((\<exists>err. (readSetRegistrationTokenHeader im h header :: 'c Incident + RegistrationToken) = Inl err) \<longleftrightarrow>
      (Map_get (parseHeaderParams im header) ''registrationToken'' = None \<or>
       Map_get (parseHeaderParams im header) ''expires'' = None \<or>
       Map_get (parseHeaderParams im header) ''endpointId'' = None)) \<and>
   (\<forall>err. (readSetRegistrationTokenHeader im h header :: 'c Incident + RegistrationToken) = Inl err \<longrightarrow>
      err = InvalidSetRegistrationTokenHeader header (parseHeaderParams im header)) \<and>
   (\<forall>v e i.
      Map_get (parseHeaderParams im header) ''registrationToken'' = Some v \<and>
      Map_get (parseHeaderParams im header) ''expires'' = Some e \<and>
      Map_get (parseHeaderParams im header) ''endpointId'' = Some i \<longrightarrow>
      (readSetRegistrationTokenHeader im h header :: 'c Incident + RegistrationToken) =
        Inr \<lparr>value_rt = v,
             expirationDate = new_Date (times_number (Num 1000) (parseInt10 e)),
             endpointId = i, raw = header, host = h\<rparr> \<and>
      (\<forall>n. parseInt10 e = Num n \<and> \<bar>1000 * n\<bar> \<le> 8640000000000000 \<longrightarrow>
         new_Date (times_number (Num 1000) (parseInt10 e)) = Date (1000 * n)) \<and>
      (parseInt10 e = NaN \<or> (\<exists>n. parseInt10 e = Num n \<and> 8640000000000000 < \<bar>1000 * n\<bar>) \<longrightarrow>
         new_Date (times_number (Num 1000) (parseInt10 e)) = InvalidDate)) \<and>
   (readSetRegistrationTokenHeader imports_example h
      ''registrationToken=abc; expires=1000; endpointId={e1}'' :: 'c Incident + RegistrationToken) =
     Inr \<lparr>value_rt = ''abc'', expirationDate = Date 1000000, endpointId = ''{e1}'',
          raw = ''registrationToken=abc; expires=1000; endpointId={e1}'', host = h\<rparr>"
proof (intro conjI allI impI)
  show "(\<exists>err. (readSetRegistrationTokenHeader im h header :: 'c Incident + RegistrationToken) = Inl err) \<longleftrightarrow>
      (Map_get (parseHeaderParams im header) ''registrationToken'' = None \<or>
       Map_get (parseHeaderParams im header) ''expires'' = None \<or>
       Map_get (parseHeaderParams im header) ''endpointId'' = None)"
    by (auto simp add: readSetRegistrationTokenHeader_def Let_def split: option.splits)
next
  fix err :: "'c Incident"
  assume "readSetRegistrationTokenHeader im h header = Inl err"
  then show "err = InvalidSetRegistrationTokenHeader header (parseHeaderParams im header)"
    by (rule readSetRegistrationTokenHeader_error)
next
  fix v e i
  assume "Map_get (parseHeaderParams im header) ''registrationToken'' = Some v \<and>
      Map_get (parseHeaderParams im header) ''expires'' = Some e \<and>
      Map_get (parseHeaderParams im header) ''endpointId'' = Some i"
  then show "(readSetRegistrationTokenHeader im h header :: 'c Incident + RegistrationToken) =
        Inr \<lparr>value_rt = v,
             expirationDate = new_Date (times_number (Num 1000) (parseInt10 e)),
             endpointId = i, raw = header, host = h\<rparr>"
    by (simp add: readSetRegistrationTokenHeader_token)
next
  fix v e i n
  assume "parseInt10 e = Num n \<and> \<bar>1000 * n\<bar> \<le> 8640000000000000"
  then show "new_Date (times_number (Num 1000) (parseInt10 e)) = Date (1000 * n)"
    by (simp add: new_Date_def)
next
  fix v e i
  assume "parseInt10 e = NaN \<or> (\<exists>n. parseInt10 e = Num n \<and> 8640000000000000 < \<bar>1000 * n\<bar>)"
  then show "new_Date (times_number (Num 1000) (parseInt10 e)) = InvalidDate"
    by (auto simp add: new_Date_def)
next
  show "(readSetRegistrationTokenHeader imports_example h
      ''registrationToken=abc; expires=1000; endpointId={e1}'' :: 'c Incident + RegistrationToken) =
     Inr \<lparr>value_rt = ''abc'', expirationDate = Date 1000000, endpointId = ''{e1}'',
          raw = ''registrationToken=abc; expires=1000; endpointId={e1}'', host = h\<rparr>"
    by (simp add: readSetRegistrationTokenHeader_def Let_def imports_example_def
        parseHeaderParams_spec_example Map_get_def parseInt10_1000 new_Date_def)
qed

theorem readSetRegistrationTokenHeader_correct_witness:
  "(readSetRegistrationTokenHeader imports_example (Str ''a.example.com'')
      ''registrationToken=abc; endpointId={e1}'' :: unit Incident + RegistrationToken) =
     Inl (InvalidSetRegistrationTokenHeader ''registrationToken=abc; endpointId={e1}''
            [(''registrationToken'', ''abc''), (''endpointId'', ''{e1}'')]) \<and>
   (readSetRegistrationTokenHeader imports_example (Str ''a.example.com'')
      ''registrationToken=abc; expires=1000; endpointId={e1}'' :: unit Incident + RegistrationToken) =
     Inr \<lparr>value_rt = ''abc'', expirationDate = Date 1000000, endpointId = ''{e1}'',
          raw = ''registrationToken=abc; expires=1000; endpointId={e1}'',
          host = Str ''a.example.com''\<rparr>"
  using readSetRegistrationTokenHeader_correct [where 'c = unit, of imports_example
      "Str ''a.example.com''" "''registrationToken=abc; endpointId={e1}''"]
    readSetRegistrationTokenHeader_correct [where 'c = unit, of imports_example
      "Str ''a.example.com''" "''registrationToken=abc; expires=1000; endpointId={e1}''"]
  by (auto simp add: imports_example_def parseHeaderParams_spec_example
      parseHeaderParams_spec_no_expires Map_get_def parseInt10_1000 new_Date_def)

text \<open>
  C2. Whatever the retry budget (a number of retries, so not negative) and whatever the
  server would answer afterwards, a first response with status 429 ends the call at once:
  the error is \<open>LoginRateLimitExceeded\<close> wrapped in \<open>EndpointRegistrationError\<close>, it
  carries the whole array \<^verbatim>\<open>tries\<close>, exactly one request has been sent (the world is
  the one right after the first \<^verbatim>\<open>post\<close>), and the error is never
  \<open>UnexpectedHttpStatusError\<close>.
\<close>

theorem registerEndpoint_rate_limited:
  fixes c :: 'c
  assumes "0 \<le> retries"
    and "post io (makeRequest im c tok h w) w = (rs, w')"
    and "statusCode rs = 429"
  shows "registerEndpoint im io c tok h retries w =
           \<lparr>outcome = Inl (EndpointRegistrationError
                             (LoginRateLimitExceeded [\<lparr>req = makeRequest im c tok h w, res = rs\<rparr>])),
            attempts = [\<lparr>req = makeRequest im c tok h w, res = rs\<rparr>],
            hostname = h, world = w'\<rparr> \<and>
         length (attempts (registerEndpoint im io c tok h retries w)) = 1 \<and>
         (\<forall>r e q. outcome (registerEndpoint im io c tok h retries w) \<noteq>
                    Inl (EndpointRegistrationError (UnexpectedHttpStatusError r e q)))"
proof -
  have "registerEndpoint im io c tok h retries w =
           \<lparr>outcome = Inl (EndpointRegistrationError
                             (LoginRateLimitExceeded [\<lparr>req = makeRequest im c tok h w, res = rs\<rparr>])),
            attempts = [\<lparr>req = makeRequest im c tok h w, res = rs\<rparr>],
            hostname = h, world = w'\<rparr>"
    unfolding registerEndpoint_def
    using assms by (simp add: registerEndpoint_loop_pass handleResponse_429)
  then show ?thesis by simp
qed

text \<open>With two retries and a server that would answer 429 three times, one request is sent.\<close>

theorem registerEndpoint_rate_limited_witness:
  "registerEndpoint imports_example io_example () skypeToken_example (Str ''a.example.com'') 2
     [r429, r429, r429] =
   \<lparr>outcome = Inl (EndpointRegistrationError
       (LoginRateLimitExceeded
          [\<lparr>req = makeRequest imports_example () skypeToken_example (Str ''a.example.com'')
                    [r429, r429, r429],
            res = r429\<rparr>])),
    attempts = [\<lparr>req = makeRequest imports_example () skypeToken_example (Str ''a.example.com'')
                    [r429, r429, r429],
                 res = r429\<rparr>],
    hostname = Str ''a.example.com'', world = [r429, r429]\<rparr> \<and>
   length (attempts (registerEndpoint imports_example io_example () skypeToken_example
                       (Str ''a.example.com'') 2 [r429, r429, r429])) = 1"
  using registerEndpoint_rate_limited [of 2 io_example imports_example "()" skypeToken_example
      "Str ''a.example.com''" "[r429, r429, r429]" r429 "[r429, r429]"]
  by (simp add: io_example_def r429_def)

text \<open>
  C3. With a retry budget \<open>retries \<ge> 0\<close> the call sends at least one request and at most
  \<open>retries + 1\<close> (exactly one when \<open>retries = 0\<close>). When it fails with
  \<open>EndpointRedirectionsLimit\<close>, the error carries the whole array \<^verbatim>\<open>tries\<close> and
  \<open>retries + 1\<close> requests have been sent; and it does fail so when each of the
  \<open>retries + 1\<close> passes ends by a redirection. In particular with \<open>retries = 0\<close> and a first
  response of status 301 whose \<^verbatim>\<open>Location\<close> names another host, the call fails with
  \<open>EndpointRedirectionsLimit\<close> after one request.
\<close>

theorem registerEndpoint_retries_exhausted:
  fixes c :: 'c
  assumes "0 \<le> retries"
  shows "1 \<le> length (attempts (registerEndpoint im io c tok h retries w)) \<and>
         int (length (attempts (registerEndpoint im io c tok h retries w))) \<le> retries + 1 \<and>
         (retries = 0 \<longrightarrow> length (attempts (registerEndpoint im io c tok h retries w)) = 1) \<and>
         (\<forall>t. outcome (registerEndpoint im io c tok h retries w) =
                Inl (EndpointRegistrationError (EndpointRedirectionsLimit t)) \<longrightarrow>
              t = attempts (registerEndpoint im io c tok h retries w) \<and>
              int (length t) = retries + 1) \<and>
         (all_redirected im io c tok (nat (retries + 1)) h [] w \<longrightarrow>
            outcome (registerEndpoint im io c tok h retries w) =
              Inl (EndpointRegistrationError (EndpointRedirectionsLimit
                     (attempts (registerEndpoint im io c tok h retries w)))) \<and>
            int (length (attempts (registerEndpoint im io c tok h retries w))) = retries + 1) \<and>
         (\<forall>rs w' loc h'.
            retries = 0 \<and> post io (makeRequest im c tok h w) w = (rs, w') \<and>
            statusCode rs = 301 \<and> headers rs ''location'' = Some loc \<and>
            host_url (parseUri im loc) = Some h' \<and> h' \<noteq> h \<longrightarrow>
            registerEndpoint im io c tok h retries w =
              \<lparr>outcome = Inl (EndpointRegistrationError (EndpointRedirectionsLimit
                                 [\<lparr>req = makeRequest im c tok h w, res = rs\<rparr>])),
               attempts = [\<lparr>req = makeRequest im c tok h w, res = rs\<rparr>],
               hostname = h', world = w'\<rparr>)"
proof -
  let ?run = "registerEndpoint im io c tok h retries w"
  have b: "1 \<le> length (attempts ?run) \<and> int (length (attempts ?run)) \<le> retries + 1"
    using registerEndpoint_loop_attempts [of "[]" im io c tok retries 0 h w] assms
    by (simp add: registerEndpoint_def Suc_le_eq)
  have l: "t = attempts ?run \<and> int (length t) = retries + 1"
    if "outcome ?run = Inl (EndpointRegistrationError (EndpointRedirectionsLimit t))" for t
  proof -
    note q = registerEndpoint_loop_limit [OF that [unfolded registerEndpoint_def]]
    show ?thesis
      unfolding registerEndpoint_def
    proof (intro conjI)
      show "t = attempts (registerEndpoint_loop im io c tok retries 0 h [] w)"
        by (rule conjunct1 [OF q])
      show "int (length t) = retries + 1"
        using conjunct2 [OF q] assms by simp
    qed
  qed
  have r: "outcome ?run = Inl (EndpointRegistrationError (EndpointRedirectionsLimit (attempts ?run)))"
    if "all_redirected im io c tok (nat (retries + 1)) h [] w"
    using registerEndpoint_loop_all_redirected [OF that, of retries 0] assms
    by (simp add: registerEndpoint_def)
  have d: "?run =
              \<lparr>outcome = Inl (EndpointRegistrationError (EndpointRedirectionsLimit
                                 [\<lparr>req = makeRequest im c tok h w, res = rs\<rparr>])),
               attempts = [\<lparr>req = makeRequest im c tok h w, res = rs\<rparr>],
               hostname = h', world = w'\<rparr>"
    if "retries = 0 \<and> post io (makeRequest im c tok h w) w = (rs, w') \<and>
            statusCode rs = 301 \<and> headers rs ''location'' = Some loc \<and>
            host_url (parseUri im loc) = Some h' \<and> h' \<noteq> h" for rs w' loc h'
    using that
    by (simp add: registerEndpoint_def registerEndpoint_loop_pass handleResponse_redirect
        registerEndpoint_loop_exit)
  show ?thesis
  proof (intro conjI allI impI)
    show "1 \<le> length (attempts ?run)" using b by simp
    show "int (length (attempts ?run)) \<le> retries + 1" using b by simp
    show "length (attempts ?run) = 1" if "retries = 0" using b that by simp
    show "t = attempts ?run"
      if "outcome ?run = Inl (EndpointRegistrationError (EndpointRedirectionsLimit t))" for t
      using l [OF that] by (rule conjunct1)
    show "int (length t) = retries + 1"
      if "outcome ?run = Inl (EndpointRegistrationError (EndpointRedirectionsLimit t))" for t
      using l [OF that] by (rule conjunct2)
    show "outcome ?run = Inl (EndpointRegistrationError (EndpointRedirectionsLimit (attempts ?run)))"
      if "all_redirected im io c tok (nat (retries + 1)) h [] w"
      using r [OF that] .
    show "int (length (attempts ?run)) = retries + 1"
      if "all_redirected im io c tok (nat (retries + 1)) h [] w"
      using l [OF r [OF that]] by (rule conjunct2)
    show "?run =
              \<lparr>outcome = Inl (EndpointRegistrationError (EndpointRedirectionsLimit
                                 [\<lparr>req = makeRequest im c tok h w, res = rs\<rparr>])),
               attempts = [\<lparr>req = makeRequest im c tok h w, res = rs\<rparr>],
               hostname = h', world = w'\<rparr>"
      if "retries = 0 \<and> post io (makeRequest im c tok h w) w = (rs, w') \<and>
            statusCode rs = 301 \<and> headers rs ''location'' = Some loc \<and>
            host_url (parseUri im loc) = Some h' \<and> h' \<noteq> h" for rs w' loc h'
      using d [OF that] .
  qed
qed

theorem registerEndpoint_retries_exhausted_witness:
  "registerEndpoint imports_example io_example () skypeToken_example (Str ''a.example.com'') 0
     [r301_to_b, r201_at_b] =
   \<lparr>outcome = Inl (EndpointRegistrationError (EndpointRedirectionsLimit
       [\<lparr>req = makeRequest imports_example () skypeToken_example (Str ''a.example.com'')
               [r301_to_b, r201_at_b],
         res = r301_to_b\<rparr>])),
    attempts = [\<lparr>req = makeRequest imports_example () skypeToken_example (Str ''a.example.com'')
                        [r301_to_b, r201_at_b],
                 res = r301_to_b\<rparr>],
    hostname = Str ''b.example.com'', world = [r201_at_b]\<rparr> \<and>
   length (attempts (registerEndpoint imports_example io_example () skypeToken_example
                       (Str ''a.example.com'') 0 [r301_to_b, r201_at_b])) = 1"
proof -
  have 0: "(0::int) \<le> 0" by simp
  have "post io_example (makeRequest imports_example () skypeToken_example (Str ''a.example.com'')
              [r301_to_b, r201_at_b]) [r301_to_b, r201_at_b] = (r301_to_b, [r201_at_b]) \<and>
      statusCode r301_to_b = 301 \<and>
      headers r301_to_b ''location'' = Some ''https://b.example.com/v1/users/ME/endpoints'' \<and>
      host_url (parseUri imports_example ''https://b.example.com/v1/users/ME/endpoints'') =
        Some (Str ''b.example.com'') \<and>
      Str ''b.example.com'' \<noteq> Str ''a.example.com''"
    by (simp add: post_io_example r301_to_b_def parseUri_imports_example parseUri_example_b)
  with registerEndpoint_retries_exhausted [OF 0, of imports_example io_example "()"
      skypeToken_example "Str ''a.example.com''" "[r301_to_b, r201_at_b]"]
  show ?thesis by blast
qed

text \<open>
  C4. In any pass of the loop, a response of status 201 or 301 whose \<^verbatim>\<open>Location\<close>
  parses to a host other than the current hostname makes the loop go on with that host as
  the hostname and with \<^verbatim>\<open>tryCount\<close> one higher: the redirection takes one unit of the
  one budget \<^verbatim>\<open>retries\<close>. With \<open>retries = 2\<close>, a redirection to a host followed by a
  response of status 201 from that host, with a \<^verbatim>\<open>Location\<close> on that host and a token
  header that parses, returns the token after two requests, and the host of the token is
  the new host.
\<close>

theorem registerEndpoint_redirect:
  fixes c :: 'c
  assumes "tryCount \<le> retries"
    and "post io (makeRequest im c tok h w) w = (rs, w')"
    and "statusCode rs \<in> {201, 301}"
    and "headers rs ''location'' = Some loc"
    and "host_url (parseUri im loc) = Some h'"
    and "h' \<noteq> h"
  shows "registerEndpoint_loop im io c tok retries tryCount h tries w =
           registerEndpoint_loop im io c tok retries (tryCount + 1) h'
             (tries @ [\<lparr>req = makeRequest im c tok h w, res = rs\<rparr>]) w' \<and>
         (\<forall>rs2 w2 loc2 hdr tk.
            retries = 2 \<and> tryCount = 0 \<and> tries = [] \<and>
            post io (makeRequest im c tok h' w') w' = (rs2, w2) \<and>
            statusCode rs2 = 201 \<and>
            headers rs2 ''location'' = Some loc2 \<and> host_url (parseUri im loc2) = Some h' \<and>
            headers rs2 ''set-registrationtoken'' = Some hdr \<and>
            readSetRegistrationTokenHeader im h' hdr = (Inr tk :: 'c Incident + RegistrationToken) \<longrightarrow>
            registerEndpoint im io c tok h 2 w =
              \<lparr>outcome = Inr tk,
               attempts = [\<lparr>req = makeRequest im c tok h w, res = rs\<rparr>,
                           \<lparr>req = makeRequest im c tok h' w', res = rs2\<rparr>],
               hostname = h', world = w2\<rparr> \<and>
            host tk = h')"
proof (intro conjI allI impI)
  show step: "registerEndpoint_loop im io c tok retries tryCount h tries w =
           registerEndpoint_loop im io c tok retries (tryCount + 1) h'
             (tries @ [\<lparr>req = makeRequest im c tok h w, res = rs\<rparr>]) w'" for tries
    using assms by (simp add: registerEndpoint_loop_pass handleResponse_redirect)
  fix rs2 w2 loc2 hdr and tk :: RegistrationToken
  assume a: "retries = 2 \<and> tryCount = 0 \<and> tries = [] \<and>
            post io (makeRequest im c tok h' w') w' = (rs2, w2) \<and>
            statusCode rs2 = 201 \<and>
            headers rs2 ''location'' = Some loc2 \<and> host_url (parseUri im loc2) = Some h' \<and>
            headers rs2 ''set-registrationtoken'' = Some hdr \<and>
            readSetRegistrationTokenHeader im h' hdr = (Inr tk :: 'c Incident + RegistrationToken)"
  have "registerEndpoint_loop im io c tok 2 1 h' [\<lparr>req = makeRequest im c tok h w, res = rs\<rparr>] w' =
      \<lparr>outcome = Inr tk,
       attempts = [\<lparr>req = makeRequest im c tok h w, res = rs\<rparr>,
                   \<lparr>req = makeRequest im c tok h' w', res = rs2\<rparr>],
       hostname = h', world = w2\<rparr>"
    using a by (simp add: registerEndpoint_loop_pass handleResponse_conclusive)
  with step [of "[]"] a
  show "registerEndpoint im io c tok h 2 w =
              \<lparr>outcome = Inr tk,
               attempts = [\<lparr>req = makeRequest im c tok h w, res = rs\<rparr>,
                           \<lparr>req = makeRequest im c tok h' w', res = rs2\<rparr>],
               hostname = h', world = w2\<rparr>"
    by (simp add: registerEndpoint_def)
  from a readSetRegistrationTokenHeader_Inr [of im h' hdr tk, where 'c = 'c]
  show "host tk = h'" by auto
qed

theorem registerEndpoint_redirect_witness:
  "registerEndpoint imports_example io_example () skypeToken_example (Str ''a.example.com'') 2
     [r301_to_b, r201_at_b] =
   \<lparr>outcome = Inr \<lparr>value_rt = ''abc'', expirationDate = Date 1000000, endpointId = ''{e1}'',
                    raw = ''registrationToken=abc; expires=1000; endpointId={e1}'',
                    host = Str ''b.example.com''\<rparr>,
    attempts = [\<lparr>req = makeRequest imports_example () skypeToken_example (Str ''a.example.com'')
                        [r301_to_b, r201_at_b],
                 res = r301_to_b\<rparr>,
                \<lparr>req = makeRequest imports_example () skypeToken_example (Str ''b.example.com'')
                        [r201_at_b],
                 res = r201_at_b\<rparr>],
    hostname = Str ''b.example.com'', world = []\<rparr>"
proof -
  have 1: "statusCode r301_to_b \<in> {201, 301}"
    and 2: "headers r301_to_b ''location'' = Some ''https://b.example.com/v1/users/ME/endpoints''"
    by (simp_all add: r301_to_b_def)
  have 3: "host_url (parseUri imports_example ''https://b.example.com/v1/users/ME/endpoints'') =
      Some (Str ''b.example.com'')"
    by (simp add: parseUri_imports_example parseUri_example_b)
  have 4: "Str ''b.example.com'' \<noteq> Str ''a.example.com''" by simp
  have 5: "statusCode r201_at_b = 201 \<and>
      headers r201_at_b ''location'' = Some ''https://b.example.com/v1/users/ME/endpoints/e1'' \<and>
      host_url (parseUri imports_example ''https://b.example.com/v1/users/ME/endpoints/e1'') =
        Some (Str ''b.example.com'') \<and>
      headers r201_at_b ''set-registrationtoken'' =
        Some ''registrationToken=abc; expires=1000; endpointId={e1}''"
    by (simp add: r201_at_b_def parseUri_imports_example parseUri_example_b1)
  have 6: "(readSetRegistrationTokenHeader imports_example (Str ''b.example.com'')
       ''registrationToken=abc; expires=1000; endpointId={e1}'' :: unit Incident + RegistrationToken) =
     Inr \<lparr>value_rt = ''abc'', expirationDate = Date 1000000, endpointId = ''{e1}'',
          raw = ''registrationToken=abc; expires=1000; endpointId={e1}'',
          host = Str ''b.example.com''\<rparr>"
    by (simp add: readSetRegistrationTokenHeader_def Let_def parseHeaderParams_imports_example
        parseHeaderParams_spec_example Map_get_def parseInt10_1000 new_Date_def)
  have 0: "(0::int) \<le> 2" by simp
  have p1: "post io_example (makeRequest imports_example () skypeToken_example (Str ''a.example.com'')
              [r301_to_b, r201_at_b]) [r301_to_b, r201_at_b] = (r301_to_b, [r201_at_b])"
    by (rule post_io_example)
  have p2: "post io_example (makeRequest imports_example () skypeToken_example (Str ''b.example.com'')
              [r201_at_b]) [r201_at_b] = (r201_at_b, [])"
    by (rule post_io_example)
  from registerEndpoint_redirect [where tries = "[]", OF 0 p1 1 2 3 4] 5 6 p2
  show ?thesis by blast
qed

text \<open>
  C5. The server redirects the first request to another host and answers the second with
  status 500. The array \<^verbatim>\<open>tries\<close> then holds two entries, and the error thrown,
  \<open>UnexpectedHttpStatusError\<close>, is created from the second request and response only: the
  first entry of the history is not in it. Of the errors of \<^verbatim>\<open>registerEndpoint\<close>, only
  \<open>LoginRateLimitExceeded\<close> and \<open>EndpointRedirectionsLimit\<close> are given the array.
\<close>

theorem registerEndpoint_history_not_attached:
  "registerEndpoint imports_example io_example () skypeToken_example (Str ''a.example.com'') 2
     [r301_to_b, r500] =
   \<lparr>outcome = Inl (EndpointRegistrationError
       (UnexpectedHttpStatusError r500 {201, 301}
          (makeRequest imports_example () skypeToken_example (Str ''b.example.com'') [r500]))),
    attempts = [\<lparr>req = makeRequest imports_example () skypeToken_example (Str ''a.example.com'')
                        [r301_to_b, r500],
                 res = r301_to_b\<rparr>,
                \<lparr>req = makeRequest imports_example () skypeToken_example (Str ''b.example.com'') [r500],
                 res = r500\<rparr>],
    hostname = Str ''b.example.com'', world = []\<rparr>"
proof -
  have 1: "statusCode r301_to_b \<in> {201, 301}"
    and 2: "headers r301_to_b ''location'' = Some ''https://b.example.com/v1/users/ME/endpoints''"
    and 3: "host_url (parseUri imports_example ''https://b.example.com/v1/users/ME/endpoints'') =
      Some (Str ''b.example.com'')"
    and 4: "Str ''b.example.com'' \<noteq> Str ''a.example.com''"
    by (simp_all add: r301_to_b_def parseUri_imports_example parseUri_example_b)
  have 5: "statusCode r500 \<noteq> 429" and 6: "statusCode r500 \<notin> {201, 301}"
    by (simp_all add: r500_def)
  show ?thesis
    by (simp add: registerEndpoint_def registerEndpoint_loop_pass [OF _ post_io_example]
        handleResponse_redirect [OF 1 2 3 4] handleResponse_bad_status [OF 5 6])
qed

text \<open>
  C6. In any pass of the loop, take a response of status 201 or 301 whose \<^verbatim>\<open>Location\<close>
  parses to an address with no host. Node's parser reports the missing host as
  \<^verbatim>\<open>null\<close>, which the test \<^verbatim>\<open>location.host === undefined\<close> of line 109 lets through:
  the pass ends as a redirection, the hostname becomes \<^verbatim>\<open>null\<close>, and the loop goes on
  with the next request. Were the host \<^verbatim>\<open>undefined\<close>, as the declared type allows, the
  call would end with the incident \<open>ParseError\<close>, thrown as it is: unlike the other errors
  of the loop it is not wrapped in \<open>EndpointRegistrationError\<close>. In neither case does the
  call fail with a wrapped error for the redirection target.
\<close>

theorem registerEndpoint_location_without_host:
  fixes c :: 'c
  assumes "tryCount \<le> retries"
    and "post io (makeRequest im c tok h w) w = (rs, w')"
    and "statusCode rs \<in> {201, 301}"
    and "headers rs ''location'' = Some loc"
  shows "(host_url (parseUri im loc) = Some Null \<and> h \<noteq> Null \<longrightarrow>
            handleResponse im (makeRequest im c tok h w) rs
              (tries @ [\<lparr>req = makeRequest im c tok h w, res = rs\<rparr>]) h = Continue Null \<and>
            registerEndpoint_loop im io c tok retries tryCount h tries w =
              registerEndpoint_loop im io c tok retries (tryCount + 1) Null
                (tries @ [\<lparr>req = makeRequest im c tok h w, res = rs\<rparr>]) w') \<and>
         (host_url (parseUri im loc) = None \<longrightarrow>
            registerEndpoint_loop im io c tok retries tryCount h tries w =
              \<lparr>outcome = Inl (ParseError ''Expected location to define host''),
               attempts = tries @ [\<lparr>req = makeRequest im c tok h w, res = rs\<rparr>],
               hostname = h, world = w'\<rparr> \<and>
            (\<forall>cause. outcome (registerEndpoint_loop im io c tok retries tryCount h tries w) \<noteq>
                        Inl (EndpointRegistrationError cause)))"
proof (intro conjI impI)
  assume a: "host_url (parseUri im loc) = Some Null \<and> h \<noteq> Null"
  then have n: "Null \<noteq> h" by auto
  show c: "handleResponse im (makeRequest im c tok h w) rs
      (tries @ [\<lparr>req = makeRequest im c tok h w, res = rs\<rparr>]) h = Continue Null"
    using assms a n by (simp add: handleResponse_redirect)
  show "registerEndpoint_loop im io c tok retries tryCount h tries w =
      registerEndpoint_loop im io c tok retries (tryCount + 1) Null
        (tries @ [\<lparr>req = makeRequest im c tok h w, res = rs\<rparr>]) w'"
    using assms c by (simp add: registerEndpoint_loop_pass)
next
  assume a: "host_url (parseUri im loc) = None"
  show e: "registerEndpoint_loop im io c tok retries tryCount h tries w =
           \<lparr>outcome = Inl (ParseError ''Expected location to define host''),
            attempts = tries @ [\<lparr>req = makeRequest im c tok h w, res = rs\<rparr>],
            hostname = h, world = w'\<rparr>"
    using assms a by (simp add: registerEndpoint_loop_pass handleResponse_no_host)
  show "\<forall>cause. outcome (registerEndpoint_loop im io c tok retries tryCount h tries w) \<noteq>
                        Inl (EndpointRegistrationError cause)"
    by (simp add: e)
qed

text \<open>
  With two retries, a first response of status 301 whose \<^verbatim>\<open>Location\<close> is
  \<^verbatim>\<open>/v1/users/ME/endpoints\<close> and a second response of status 500: two requests are sent,
  the second one for the hostname \<^verbatim>\<open>null\<close>, and the error is the one of the second
  response.
\<close>

theorem registerEndpoint_location_without_host_witness:
  "registerEndpoint imports_example io_example () skypeToken_example (Str ''a.example.com'') 2
     [r301_no_host, r500] =
   \<lparr>outcome = Inl (EndpointRegistrationError
       (UnexpectedHttpStatusError r500 {201, 301}
          (makeRequest imports_example () skypeToken_example Null [r500]))),
    attempts = [\<lparr>req = makeRequest imports_example () skypeToken_example (Str ''a.example.com'')
                        [r301_no_host, r500],
                 res = r301_no_host\<rparr>,
                \<lparr>req = makeRequest imports_example () skypeToken_example Null [r500],
                 res = r500\<rparr>],
    hostname = Null, world = []\<rparr>"
proof -
  have 0: "(0::int) \<le> 2" by simp
  have p: "post io_example (makeRequest imports_example () skypeToken_example
              (Str ''a.example.com'') [r301_no_host, r500]) [r301_no_host, r500] =
            (r301_no_host, [r500])"
    by (rule post_io_example)
  have 1: "statusCode r301_no_host \<in> {201, 301}"
    and 2: "headers r301_no_host ''location'' = Some ''/v1/users/ME/endpoints''"
    by (simp_all add: r301_no_host_def)
  have 3: "host_url (parseUri imports_example ''/v1/users/ME/endpoints'') = Some Null \<and>
      Str ''a.example.com'' \<noteq> Null"
    by (simp add: parseUri_imports_example parseUri_example_relative)
  have 5: "statusCode r500 \<noteq> 429" and 6: "statusCode r500 \<notin> {201, 301}"
    by (simp_all add: r500_def)
  have "registerEndpoint_loop imports_example io_example () skypeToken_example 2 0
          (Str ''a.example.com'') [] [r301_no_host, r500] =
        registerEndpoint_loop imports_example io_example () skypeToken_example 2 (0 + 1) Null
          ([] @ [\<lparr>req = makeRequest imports_example () skypeToken_example (Str ''a.example.com'')
                         [r301_no_host, r500],
                  res = r301_no_host\<rparr>]) [r500]"
    using registerEndpoint_location_without_host [where tries = "[]", OF 0 p 1 2] 3 by blast
  then show ?thesis
    by (simp add: registerEndpoint_def registerEndpoint_loop_pass [OF _ post_io_example]
        handleResponse_bad_status [OF 5 6])
qed

text \<open>
  C7. In any pass of the loop, a response whose status is none of 429, 201 and 301 ends the
  call with \<open>UnexpectedHttpStatusError\<close>, created from the response (which holds the status
  received), the expected set \<open>{201, 301}\<close> and the request, and wrapped in
  \<open>EndpointRegistrationError\<close>. The call \<^verbatim>\<open>registerEndpoint\<close> is the loop started with
  \<open>tryCount = 0\<close> and no entry in \<^verbatim>\<open>tries\<close>.
\<close>

theorem registerEndpoint_unexpected_status:
  fixes c :: 'c
  assumes "tryCount \<le> retries"
    and "post io (makeRequest im c tok h w) w = (rs, w')"
    and "statusCode rs \<noteq> 429"
    and "statusCode rs \<notin> {201, 301}"
  shows "registerEndpoint_loop im io c tok retries tryCount h tries w =
           \<lparr>outcome = Inl (EndpointRegistrationError
                             (UnexpectedHttpStatusError rs {201, 301} (makeRequest im c tok h w))),
            attempts = tries @ [\<lparr>req = makeRequest im c tok h w, res = rs\<rparr>],
            hostname = h, world = w'\<rparr>"
  using assms by (simp add: registerEndpoint_loop_pass handleResponse_bad_status)

theorem registerEndpoint_unexpected_status_witness:
  "registerEndpoint_loop imports_example io_example () skypeToken_example 2 0 (Str ''a.example.com'') []
     [r500] =
   \<lparr>outcome = Inl (EndpointRegistrationError
       (UnexpectedHttpStatusError r500 {201, 301}
          (makeRequest imports_example () skypeToken_example (Str ''a.example.com'') [r500]))),
    attempts = [\<lparr>req = makeRequest imports_example () skypeToken_example (Str ''a.example.com'') [r500],
                 res = r500\<rparr>],
    hostname = Str ''a.example.com'', world = []\<rparr>"
  using registerEndpoint_unexpected_status [of 0 2 io_example imports_example "()"
      skypeToken_example "Str ''a.example.com''" "[r500]" r500 "[]" "[]"]
  by (simp add: post_io_example) (simp add: r500_def)

text \<open>
  C8. In any pass of the loop, a response of status 201 or 301 with no \<^verbatim>\<open>location\<close>
  header ends the call with \<open>MissingHeaderError\<close> for the name \<^verbatim>\<open>Location\<close>; and a
  response of status 201 whose \<^verbatim>\<open>Location\<close> is on the current hostname and that has
  no \<^verbatim>\<open>set-registrationtoken\<close> header ends it with \<open>MissingHeaderError\<close> for the name
  \<^verbatim>\<open>Set-Registrationtoken\<close>.
\<close>

theorem registerEndpoint_missing_header:
  fixes c :: 'c
  assumes "tryCount \<le> retries"
    and "post io (makeRequest im c tok h w) w = (rs, w')"
  shows "(statusCode rs \<in> {201, 301} \<and> headers rs ''location'' = None \<longrightarrow>
            registerEndpoint_loop im io c tok retries tryCount h tries w =
              \<lparr>outcome = Inl (EndpointRegistrationError
                                (MissingHeaderError rs ''Location'' (makeRequest im c tok h w))),
               attempts = tries @ [\<lparr>req = makeRequest im c tok h w, res = rs\<rparr>],
               hostname = h, world = w'\<rparr>) \<and>
         (\<forall>loc. statusCode rs = 201 \<and> headers rs ''location'' = Some loc \<and>
                host_url (parseUri im loc) = Some h \<and>
                headers rs ''set-registrationtoken'' = None \<longrightarrow>
            registerEndpoint_loop im io c tok retries tryCount h tries w =
              \<lparr>outcome = Inl (EndpointRegistrationError
                                (MissingHeaderError rs ''Set-Registrationtoken''
                                   (makeRequest im c tok h w))),
               attempts = tries @ [\<lparr>req = makeRequest im c tok h w, res = rs\<rparr>],
               hostname = h, world = w'\<rparr>)"
  using assms
  by (auto simp add: registerEndpoint_loop_pass handleResponse_no_location
      handleResponse_no_token_header)

theorem registerEndpoint_missing_header_witness:
  "registerEndpoint_loop imports_example io_example () skypeToken_example 2 0 (Str ''a.example.com'') []
     [r201_no_location] =
   \<lparr>outcome = Inl (EndpointRegistrationError
       (MissingHeaderError r201_no_location ''Location''
          (makeRequest imports_example () skypeToken_example (Str ''a.example.com'')
             [r201_no_location]))),
    attempts = [\<lparr>req = makeRequest imports_example () skypeToken_example (Str ''a.example.com'')
                        [r201_no_location],
                 res = r201_no_location\<rparr>],
    hostname = Str ''a.example.com'', world = []\<rparr> \<and>
   registerEndpoint_loop imports_example io_example () skypeToken_example 2 0 (Str ''a.example.com'') []
     [r201_no_token_at_a] =
   \<lparr>outcome = Inl (EndpointRegistrationError
       (MissingHeaderError r201_no_token_at_a ''Set-Registrationtoken''
          (makeRequest imports_example () skypeToken_example (Str ''a.example.com'')
             [r201_no_token_at_a]))),
    attempts = [\<lparr>req = makeRequest imports_example () skypeToken_example (Str ''a.example.com'')
                        [r201_no_token_at_a],
                 res = r201_no_token_at_a\<rparr>],
    hostname = Str ''a.example.com'', world = []\<rparr>"
proof -
  have "statusCode r201_no_location \<in> {201, 301} \<and> headers r201_no_location ''location'' = None"
    by (simp add: r201_no_location_def)
  moreover have "statusCode r201_no_token_at_a = 201 \<and>
      headers r201_no_token_at_a ''location'' =
        Some ''https://a.example.com/v1/users/ME/endpoints/e1'' \<and>
      host_url (parseUri imports_example ''https://a.example.com/v1/users/ME/endpoints/e1'') =
        Some (Str ''a.example.com'') \<and>
      headers r201_no_token_at_a ''set-registrationtoken'' = None"
    by (simp add: r201_no_token_at_a_def parseUri_imports_example parseUri_example_a)
  ultimately show ?thesis
    using registerEndpoint_missing_header [of 0 2 io_example imports_example "()"
        skypeToken_example "Str ''a.example.com''" "[r201_no_location]" r201_no_location "[]" "[]"]
      registerEndpoint_missing_header [of 0 2 io_example imports_example "()"
        skypeToken_example "Str ''a.example.com''" "[r201_no_token_at_a]" r201_no_token_at_a "[]" "[]"]
    by (simp add: post_io_example)
qed




text \<open>
  C10. When the parsed header has the three keys, \<^verbatim>\<open>readSetRegistrationTokenHeader\<close>
  returns a token whatever the value of \<^verbatim>\<open>expires\<close> is. The expiration date comes from
  the lenient parse: digits followed by anything that is not a digit are read as the
  digits alone (\<^verbatim>\<open>1000x\<close> is read as 1000), and a value with no numeric prefix gives
  the invalid date, not an error.
\<close>

theorem readSetRegistrationTokenHeader_lenient:
  "(\<forall>v e i.
      Map_get (parseHeaderParams im header) ''registrationToken'' = Some v \<and>
      Map_get (parseHeaderParams im header) ''expires'' = Some e \<and>
      Map_get (parseHeaderParams im header) ''endpointId'' = Some i \<longrightarrow>
      (\<exists>tk. (readSetRegistrationTokenHeader im h header :: 'c Incident + RegistrationToken) = Inr tk \<and>
            expirationDate tk = new_Date (times_number (Num 1000) (parseInt10 e)) \<and>
            (numericPrefix e = [] \<longrightarrow> expirationDate tk = InvalidDate))) \<and>
   (\<forall>d rest. d \<noteq> [] \<and> (\<forall>c\<in>set d. isDigit c) \<and> (rest = [] \<or> \<not> isDigit (hd rest)) \<longrightarrow>
      parseInt10 (d @ rest) = Num (digitsValue d)) \<and>
   (\<forall>e. numericPrefix e = [] \<longrightarrow> parseInt10 e = NaN) \<and>
   parseInt10 ''1000x'' = parseInt10 ''1000'' \<and> parseInt10 ''1000'' = Num 1000"
proof (intro conjI allI impI)
  fix v e i
  assume a: "Map_get (parseHeaderParams im header) ''registrationToken'' = Some v \<and>
      Map_get (parseHeaderParams im header) ''expires'' = Some e \<and>
      Map_get (parseHeaderParams im header) ''endpointId'' = Some i"
  have "(readSetRegistrationTokenHeader im h header :: 'c Incident + RegistrationToken) =
     Inr \<lparr>value_rt = v,
          expirationDate = new_Date (times_number (Num 1000) (parseInt10 e)),
          endpointId = i, raw = header, host = h\<rparr>"
    using a by (simp add: readSetRegistrationTokenHeader_token)
  then show "\<exists>tk. (readSetRegistrationTokenHeader im h header :: 'c Incident + RegistrationToken) = Inr tk \<and>
            expirationDate tk = new_Date (times_number (Num 1000) (parseInt10 e)) \<and>
            (numericPrefix e = [] \<longrightarrow> expirationDate tk = InvalidDate)"
    by (simp add: parseInt10_no_prefix new_Date_def)
next
  fix d rest
  assume "d \<noteq> [] \<and> (\<forall>c\<in>set d. isDigit c) \<and> (rest = [] \<or> \<not> isDigit (hd rest))"
  then show "parseInt10 (d @ rest) = Num (digitsValue d)"
    by (simp add: parseInt10_digits)
next
  fix e
  assume "numericPrefix e = []"
  then show "parseInt10 e = NaN" by (rule parseInt10_no_prefix)
next
  show "parseInt10 ''1000x'' = parseInt10 ''1000''"
    by (simp add: parseInt10_1000 parseInt10_1000x)
next
  show "parseInt10 ''1000'' = Num 1000" by (rule parseInt10_1000)
qed

theorem readSetRegistrationTokenHeader_lenient_witness:
  "(\<exists>tk. (readSetRegistrationTokenHeader imports_example (Str ''a.example.com'')
            ''registrationToken=abc; expires=1000x; endpointId={e1}''
            :: unit Incident + RegistrationToken) = Inr tk \<and>
         expirationDate tk = Date 1000000) \<and>
   (\<exists>tk. (readSetRegistrationTokenHeader imports_example (Str ''a.example.com'')
            ''registrationToken=abc; expires=soon; endpointId={e1}''
            :: unit Incident + RegistrationToken) = Inr tk \<and>
         expirationDate tk = InvalidDate)"
proof -
  have p: "parseHeaderParams imports_example = parseHeaderParams_spec"
    by (simp add: imports_example_def)
  have "\<exists>tk. (readSetRegistrationTokenHeader imports_example (Str ''a.example.com'')
            ''registrationToken=abc; expires=1000x; endpointId={e1}''
            :: unit Incident + RegistrationToken) = Inr tk \<and>
         expirationDate tk = Date 1000000"
    using readSetRegistrationTokenHeader_lenient [where 'c = unit, of imports_example
      "''registrationToken=abc; expires=1000x; endpointId={e1}''" "Str ''a.example.com''"]
    by (simp add: p parseHeaderParams_spec_1000x Map_get_def parseInt10_1000x new_Date_def) blast
  moreover have "\<exists>tk. (readSetRegistrationTokenHeader imports_example (Str ''a.example.com'')
            ''registrationToken=abc; expires=soon; endpointId={e1}''
            :: unit Incident + RegistrationToken) = Inr tk \<and>
         expirationDate tk = InvalidDate"
    using readSetRegistrationTokenHeader_lenient [where 'c = unit, of imports_example
      "''registrationToken=abc; expires=soon; endpointId={e1}''" "Str ''a.example.com''"]
    by (simp add: p parseHeaderParams_spec_soon Map_get_def numericPrefix_soon) blast
  ultimately show ?thesis by (rule conjI)
qed

end
